theory Spec2Isabelle
  imports Main
begin

section \<open>Python values, exceptions and the library the handlers call\<close>

text \<open>
  The three Cloud Functions (\<^verbatim>\<open>upload-image\<close>, \<^verbatim>\<open>process-image\<close>, \<^verbatim>\<open>log-notification\<close>)
  are embedded as functions from an input and a world to an outcome and a new world.
  Strings and byte strings are \<open>char list\<close> (text is read as its UTF-8 bytes).
\<close>

type_synonym bytes = string

text \<open>A Python float: a finite value \<open>(-1)^sign * mantissa * 2^exponent\<close>, an
  infinity or NaN (\<^verbatim>\<open>json.loads\<close> accepts \<^verbatim>\<open>Infinity\<close>, \<^verbatim>\<open>-Infinity\<close> and
  \<^verbatim>\<open>NaN\<close>). Only its truth value is ever consulted: a float is false exactly
  when it is zero.\<close>

datatype pyfloat = Finite bool nat int | Infinity bool | NaN

fun float_bool :: "pyfloat \<Rightarrow> bool" where
  "float_bool (Finite sign mantissa exponent) = (mantissa \<noteq> 0)"
| "float_bool (Infinity sign) = True"
| "float_bool NaN = True"

text \<open>What \<^verbatim>\<open>json.loads\<close> returns: None, bool, int, float, str, list, dict.
  A dict is an association list read with \<open>map_of\<close>.\<close>

datatype json =
    JNull
  | JBool bool
  | JInt int
  | JFloat pyfloat
  | JStr string
  | JArr "json list"
  | JObj "(string \<times> json) list"

text \<open>The exceptions that matter to the handlers' \<^verbatim>\<open>except\<close> clauses.
  \<open>BinasciiError\<close>, \<open>UnicodeDecodeError\<close> and \<open>JSONDecodeError\<close> are subclasses
  of \<open>ValueError\<close> in Python; \<open>OtherError\<close> stands for every other exception class
  (network errors, \<^verbatim>\<open>NotFound\<close>, Pillow's \<^verbatim>\<open>UnidentifiedImageError\<close>, ...).\<close>

datatype exn =
    ValueError
  | BinasciiError
  | UnicodeDecodeError
  | JSONDecodeError
  | AttributeError
  | TypeError
  | OtherError string

text \<open>\<^verbatim>\<open>except (ValueError, json.JSONDecodeError)\<close> catches the instances of
  \<open>ValueError\<close>, subclasses included.\<close>

fun isinstance_ValueError :: "exn \<Rightarrow> bool" where
  "isinstance_ValueError ValueError = True"
| "isinstance_ValueError BinasciiError = True"
| "isinstance_ValueError UnicodeDecodeError = True"
| "isinstance_ValueError JSONDecodeError = True"
| "isinstance_ValueError AttributeError = False"
| "isinstance_ValueError TypeError = False"
| "isinstance_ValueError (OtherError _) = False"

text \<open>The functions of the standard library and of Pillow that the handlers call are
  parameters of the model, each with the exceptions it may raise:
  \<^verbatim>\<open>base64.b64decode\<close> on a str, \<^verbatim>\<open>bytes.decode("utf-8")\<close>, \<^verbatim>\<open>json.loads\<close>,
  \<^verbatim>\<open>str\<close> of a value that is not a str, and the image step
  \<^verbatim>\<open>Image.open(...).convert("L").save(buf, format="JPEG", quality=90)\<close>.\<close>

record pylib =
  b64decode :: "string \<Rightarrow> exn + bytes"
  decode_utf8 :: "bytes \<Rightarrow> exn + string"
  json_loads :: "string \<Rightarrow> exn + json"
  py_str :: "json \<Rightarrow> string"
  grayscale_jpeg :: "bytes \<Rightarrow> exn + bytes"

text \<open>Python truthiness, as \<^verbatim>\<open>not raw\<close> and \<^verbatim>\<open>not object_name\<close> use it.\<close>

fun truthy :: "json \<Rightarrow> bool" where
  "truthy JNull = False"
| "truthy (JBool b) = b"
| "truthy (JInt i) = (i \<noteq> 0)"
| "truthy (JFloat f) = float_bool f"
| "truthy (JStr s) = (s \<noteq> [])"
| "truthy (JArr xs) = (xs \<noteq> [])"
| "truthy (JObj kvs) = (kvs \<noteq> [])"

fun is_dict :: "json \<Rightarrow> bool" where
  "is_dict (JObj kvs) = True"
| "is_dict JNull = False"
| "is_dict (JBool b) = False"
| "is_dict (JInt i) = False"
| "is_dict (JFloat f) = False"
| "is_dict (JStr s) = False"
| "is_dict (JArr xs) = False"

text \<open>\<^verbatim>\<open>d.get(key, default)\<close>: \<open>field\<close> is the lookup in a dict's items. Only a
  dict has the method; on any other value the attribute lookup raises
  \<open>AttributeError\<close>.\<close>

definition field :: "(string \<times> json) list \<Rightarrow> string \<Rightarrow> json \<Rightarrow> json" where
  "field kvs key dflt = (case map_of kvs key of Some v \<Rightarrow> v | None \<Rightarrow> dflt)"

fun dict_get :: "json \<Rightarrow> string \<Rightarrow> json \<Rightarrow> exn + json" where
  "dict_get (JObj kvs) key dflt = Inr (field kvs key dflt)"
| "dict_get JNull key dflt = Inl AttributeError"
| "dict_get (JBool b) key dflt = Inl AttributeError"
| "dict_get (JInt i) key dflt = Inl AttributeError"
| "dict_get (JFloat f) key dflt = Inl AttributeError"
| "dict_get (JStr s) key dflt = Inl AttributeError"
| "dict_get (JArr xs) key dflt = Inl AttributeError"

text \<open>A value inside an f-string: a str is inserted as it is, anything else through
  \<^verbatim>\<open>str\<close>.\<close>

fun format_value :: "pylib \<Rightarrow> json \<Rightarrow> string" where
  "format_value L (JStr s) = s"
| "format_value L JNull = py_str L JNull"
| "format_value L (JBool b) = py_str L (JBool b)"
| "format_value L (JInt i) = py_str L (JInt i)"
| "format_value L (JFloat f) = py_str L (JFloat f)"
| "format_value L (JArr xs) = py_str L (JArr xs)"
| "format_value L (JObj kvs) = py_str L (JObj kvs)"

text \<open>\<^verbatim>\<open>x or default\<close> on an optional str.\<close>

fun or_default :: "string option \<Rightarrow> string \<Rightarrow> string" where
  "or_default None dflt = dflt"
| "or_default (Some s) dflt = (if s = [] then dflt else s)"

subsection \<open>\<^verbatim>\<open>os.path.splitext\<close> and \<^verbatim>\<open>str.lower\<close>\<close>

text \<open>\<^verbatim>\<open>p.rfind(c)\<close>: the highest index of \<open>c\<close> in \<open>p\<close>, or \<open>-1\<close>.\<close>

primrec rfind_from :: "char \<Rightarrow> string \<Rightarrow> nat \<Rightarrow> int \<Rightarrow> int" where
  "rfind_from c [] i found = found"
| "rfind_from c (x # xs) i found = rfind_from c xs (Suc i) (if x = c then int i else found)"

definition rfind :: "string \<Rightarrow> char \<Rightarrow> int" where
  "rfind p c = rfind_from c p 0 (- 1)"

text \<open>The loop of \<^verbatim>\<open>genericpath._splitext\<close> that skips leading dots: it returns from
  inside the loop exactly when some character from \<open>filenameIndex\<close> up to (excluding)
  \<open>dotIndex\<close> is not a dot.\<close>

function has_nondot :: "string \<Rightarrow> nat \<Rightarrow> nat \<Rightarrow> bool" where
  "has_nondot p filenameIndex dotIndex =
     (if filenameIndex < dotIndex
      then (if p ! filenameIndex \<noteq> CHR ''.'' then True
            else has_nondot p (Suc filenameIndex) dotIndex)
      else False)"
  by pat_completeness auto
termination
  by (relation "measure (\<lambda>(p, filenameIndex, dotIndex). dotIndex - filenameIndex)") auto

declare has_nondot.simps [simp del]

text \<open>\<^verbatim>\<open>os.path.splitext\<close> on POSIX (separator \<open>/\<close>, no alternative separator).\<close>

definition splitext :: "string \<Rightarrow> string \<times> string" where
  "splitext p =
     (let sepIndex = rfind p (CHR ''/'');
          dotIndex = rfind p (CHR ''.'')
      in if dotIndex > sepIndex \<and> has_nondot p (nat (sepIndex + 1)) (nat dotIndex)
         then (take (nat dotIndex) p, drop (nat dotIndex) p)
         else (p, []))"

text \<open>\<^verbatim>\<open>str.lower\<close> on the ASCII letters; every other byte is left as it is. (No
  character outside ASCII lowers to one of the ASCII letters of the allow-list, so
  the membership test below is decided as in Python.)\<close>

definition lower_char :: "char \<Rightarrow> char" where
  "lower_char c =
     (case map_of (zip ''ABCDEFGHIJKLMNOPQRSTUVWXYZ'' ''abcdefghijklmnopqrstuvwxyz'') c of
        Some d \<Rightarrow> d
      | None \<Rightarrow> c)"

definition lower :: "string \<Rightarrow> string" where
  "lower s = map lower_char s"

section \<open>The world: object store, message queue, standard output\<close>

text \<open>Every call a handler makes to an external service is recorded, in order, with
  whether the service acknowledged it:
  \<^item> \<open>StoreWrite bucket object content content_type ok\<close> for
    \<^verbatim>\<open>bucket(b).blob(name).upload_from_file(stream, content_type=...)\<close>;
  \<^item> \<open>Publish topic message attributes ok\<close> for
    \<^verbatim>\<open>publish(topic, data=json.dumps(message).encode("utf-8"), **attributes)\<close>
    followed by \<^verbatim>\<open>future.result(timeout=10)\<close>; the message is kept as the dict
    handed to \<^verbatim>\<open>json.dumps\<close>;
  \<^item> \<open>Print record\<close> for \<^verbatim>\<open>print(json.dumps(record))\<close>.
  Calls to \<^verbatim>\<open>logger\<close> are not recorded.\<close>

datatype effect =
    StoreWrite string string bytes string bool
  | Publish string json "(string \<times> json) list" bool
  | Print json

record world =
  blobs :: "string \<times> string \<Rightarrow> (bytes \<times> string) option"
  trace :: "effect list"

text \<open>What the outside decides during one invocation: the identifier and the clock
  readings (\<open>utcnow\<close> as \<^verbatim>\<open>strftime("%Y%m%d_%H%M%S")\<close> prints it, \<open>now_iso\<close> as
  \<^verbatim>\<open>isoformat()\<close> does), whether the store write and the publish raise (a timeout
  included) and with which exception, and what a download returns for a bucket and an
  object name. Nothing is assumed of these answers.\<close>

record env =
  uuid4 :: string
  utcnow :: string
  now_iso :: string
  store_fault :: "exn option"
  publish_fault :: "exn option"
  download_as_bytes :: "json \<Rightarrow> json \<Rightarrow> exn + bytes"

text \<open>The environment variables read at import time.\<close>

record config =
  UPLOADS_BUCKET :: string
  PROCESSED_BUCKET :: string
  PUBSUB_TOPIC :: string
  RESULTS_TOPIC :: string
  PROJECT_ID :: string

definition upload_from_file ::
  "env \<Rightarrow> string \<Rightarrow> string \<Rightarrow> bytes \<Rightarrow> string \<Rightarrow> world \<Rightarrow> (exn + unit) \<times> world" where
  "upload_from_file E bucket name content ctype w =
     (case store_fault E of
        Some e \<Rightarrow> (Inl e, w\<lparr>trace := trace w @ [StoreWrite bucket name content ctype False]\<rparr>)
      | None \<Rightarrow>
          (Inr (),
           w\<lparr>blobs := (blobs w)((bucket, name) \<mapsto> (content, ctype)),
             trace := trace w @ [StoreWrite bucket name content ctype True]\<rparr>))"

definition publish ::
  "env \<Rightarrow> string \<Rightarrow> json \<Rightarrow> (string \<times> json) list \<Rightarrow> world \<Rightarrow> (exn + unit) \<times> world" where
  "publish E topic message attrs w =
     (case publish_fault E of
        Some e \<Rightarrow> (Inl e, w\<lparr>trace := trace w @ [Publish topic message attrs False]\<rparr>)
      | None \<Rightarrow> (Inr (), w\<lparr>trace := trace w @ [Publish topic message attrs True]\<rparr>))"

text \<open>The effects of one invocation: what the trace gained.\<close>

definition events_since :: "world \<Rightarrow> world \<Rightarrow> effect list" where
  "events_since w w' = drop (length (trace w)) (trace w')"

fun store_writes :: "effect list \<Rightarrow> (string \<times> string \<times> bytes \<times> string) list" where
  "store_writes [] = []"
| "store_writes (StoreWrite b k d ct ok # es) = (b, k, d, ct) # store_writes es"
| "store_writes (Publish t m a ok # es) = store_writes es"
| "store_writes (Print r # es) = store_writes es"

fun publishes :: "effect list \<Rightarrow> (string \<times> json \<times> (string \<times> json) list) list" where
  "publishes [] = []"
| "publishes (StoreWrite b k d ct ok # es) = publishes es"
| "publishes (Publish t m a ok # es) = (t, m, a) # publishes es"
| "publishes (Print r # es) = publishes es"

fun prints :: "effect list \<Rightarrow> json list" where
  "prints [] = []"
| "prints (StoreWrite b k d ct ok # es) = prints es"
| "prints (Publish t m a ok # es) = prints es"
| "prints (Print r # es) = r # prints es"

fun failed_store_write :: "effect \<Rightarrow> bool" where
  "failed_store_write (StoreWrite b k d ct ok) = (\<not> ok)"
| "failed_store_write (Publish t m a ok) = False"
| "failed_store_write (Print r) = False"

text \<open>Every publish in the list comes after an acknowledged store write (\<open>stored\<close>
  says whether one has been seen already).\<close>

fun publish_after_store :: "bool \<Rightarrow> effect list \<Rightarrow> bool" where
  "publish_after_store stored [] = True"
| "publish_after_store stored (StoreWrite b k d ct ok # es) =
     publish_after_store (stored \<or> ok) es"
| "publish_after_store stored (Publish t m a ok # es) =
     (stored \<and> publish_after_store stored es)"
| "publish_after_store stored (Print r # es) = publish_after_store stored es"

section \<open>Ingress: \<^verbatim>\<open>upload-image/main.py\<close>\<close>

record file_storage =
  filename :: "string option"
  content_type :: "string option"
  stream :: bytes

text \<open>\<^verbatim>\<open>request.method\<close> and \<^verbatim>\<open>request.files\<close> (the first file of each field name).\<close>

record request =
  http_method :: string
  files :: "(string \<times> file_storage) list"

datatype body = Text string | Json json

record response =
  resp_body :: body
  status :: nat
  headers :: "(string \<times> string) list"

definition jsonify :: "(string \<times> json) list \<Rightarrow> nat \<Rightarrow> response" where
  "jsonify kvs code = \<lparr>resp_body = Json (JObj kvs), status = code, headers = []\<rparr>"

definition ALLOWED_EXTENSIONS :: "string set" where
  "ALLOWED_EXTENSIONS = {''.jpg'', ''.jpeg'', ''.png'', ''.gif'', ''.bmp'', ''.webp'', ''.tiff''}"

text \<open>The text of the 400 response for a refused extension:
  \<^verbatim>\<open>f"Unsupported file type '{ext}'. Allowed: {sorted(ALLOWED_EXTENSIONS)}"\<close>.\<close>

definition unsupported_message :: "string \<Rightarrow> string" where
  "unsupported_message ext =
     ''Unsupported file type '' @ [CHR 0x27] @ ext @ [CHR 0x27] @ ''. Allowed: [''
     @ [CHR 0x27] @ ''.bmp'' @ [CHR 0x27] @ '', ''
     @ [CHR 0x27] @ ''.gif'' @ [CHR 0x27] @ '', ''
     @ [CHR 0x27] @ ''.jpeg'' @ [CHR 0x27] @ '', ''
     @ [CHR 0x27] @ ''.jpg'' @ [CHR 0x27] @ '', ''
     @ [CHR 0x27] @ ''.png'' @ [CHR 0x27] @ '', ''
     @ [CHR 0x27] @ ''.tiff'' @ [CHR 0x27] @ '', ''
     @ [CHR 0x27] @ ''.webp'' @ [CHR 0x27] @ '']''"

text \<open>The dict \<^verbatim>\<open>message_data\<close>: the processing request.\<close>

definition message_data ::
  "config \<Rightarrow> string \<Rightarrow> string \<Rightarrow> string \<Rightarrow> string \<Rightarrow> string \<Rightarrow> json" where
  "message_data C upload_id object_name original_filename ctype timestamp =
     JObj [(''upload_id'', JStr upload_id),
           (''bucket'', JStr (UPLOADS_BUCKET C)),
           (''object_name'', JStr object_name),
           (''original_filename'', JStr original_filename),
           (''content_type'', JStr ctype),
           (''timestamp'', JStr timestamp)]"

text \<open>The part of \<^verbatim>\<open>upload_image\<close> after validation: build the object name, write
  the raw bytes, and only then publish the processing request.\<close>

definition store_and_queue ::
  "config \<Rightarrow> env \<Rightarrow> file_storage \<Rightarrow> string \<Rightarrow> string \<Rightarrow> world \<Rightarrow> response \<times> world" where
  "store_and_queue C E file fname ext w =
     (let upload_id = uuid4 E;
          timestamp = utcnow E;
          object_name = timestamp @ ''_'' @ upload_id @ ext
      in case upload_from_file E (UPLOADS_BUCKET C) object_name (stream file)
                (or_default (content_type file) ''image/jpeg'') w of
           (Inl e, w1) \<Rightarrow>
             (jsonify [(''error'', JStr ''Failed to store image. Please retry.'')] 500, w1)
         | (Inr u, w1) \<Rightarrow>
             (case publish E (PUBSUB_TOPIC C)
                     (message_data C upload_id object_name fname
                        (or_default (content_type file) ''image/jpeg'') timestamp)
                     [(''upload_id'', JStr upload_id)] w1 of
                (Inl e, w2) \<Rightarrow>
                  (jsonify [(''error'',
                     JStr ''Image stored but failed to queue for processing.'')] 500, w2)
              | (Inr u, w2) \<Rightarrow>
                  (jsonify
                     [(''upload_id'', JStr upload_id),
                      (''object_name'', JStr object_name),
                      (''message'', JStr ''Image accepted and queued for processing.''),
                      (''status'', JStr ''PROCESSING'')] 202, w2)))"

text \<open>\<^verbatim>\<open>upload_image\<close>. The test \<^verbatim>\<open>not file or not file.filename\<close> is a test of
  the filename alone: the truth value of werkzeug's \<^verbatim>\<open>FileStorage\<close> is that of its
  filename.\<close>

definition upload_image :: "config \<Rightarrow> env \<Rightarrow> request \<Rightarrow> world \<Rightarrow> response \<times> world" where
  "upload_image C E request w =
     (if http_method request = ''OPTIONS''
      then (\<lparr>resp_body = Text [], status = 204,
             headers = [(''Access-Control-Allow-Origin'', ''*''),
                        (''Access-Control-Allow-Methods'', ''POST''),
                        (''Access-Control-Allow-Headers'', ''Content-Type, x-api-key'')]\<rparr>, w)
      else if http_method request \<noteq> ''POST''
      then (jsonify [(''error'', JStr ''Method not allowed. Use POST.'')] 405, w)
      else (case map_of (files request) ''image'' of
              None \<Rightarrow>
                (jsonify [(''error'', JStr
                   (''Missing file. Send a multipart/form-data request with field name ''
                    @ [CHR 0x27] @ ''image'' @ [CHR 0x27] @ ''.''))] 400, w)
            | Some file \<Rightarrow>
                (case filename file of
                   None \<Rightarrow> (jsonify [(''error'', JStr ''Empty file or filename.'')] 400, w)
                 | Some fname \<Rightarrow>
                     if fname = []
                     then (jsonify [(''error'', JStr ''Empty file or filename.'')] 400, w)
                     else (let ext = lower (snd (splitext fname))
                           in if ext \<notin> ALLOWED_EXTENSIONS
                              then (jsonify [(''error'', JStr (unsupported_message ext))] 400, w)
                              else store_and_queue C E file fname ext w))))"

section \<open>Processing: \<^verbatim>\<open>process-image/main.py\<close>\<close>

text \<open>A CloudEvent: its attributes (\<^verbatim>\<open>cloud_event.get("id", "")\<close>) and its data, the
  JSON body the trigger delivers.\<close>

record cloud_event =
  attributes :: "(string \<times> string) list"
  data :: json

text \<open>\<^verbatim>\<open>_decode_pubsub_message\<close> (the same function in both subscribers).\<close>

definition decode_pubsub_message :: "pylib \<Rightarrow> cloud_event \<Rightarrow> exn + json" where
  "decode_pubsub_message L cloud_event =
     (case dict_get (data cloud_event) ''message'' (JObj []) of
        Inl e \<Rightarrow> Inl e
      | Inr message \<Rightarrow>
          (case dict_get message ''data'' (JStr []) of
             Inl e \<Rightarrow> Inl e
           | Inr raw \<Rightarrow>
               if \<not> truthy raw then Inl ValueError
               else (case raw of
                       JStr s \<Rightarrow>
                         (case b64decode L s of
                            Inl e \<Rightarrow> Inl e
                          | Inr decoded \<Rightarrow>
                              (case decode_utf8 L decoded of
                                 Inl e \<Rightarrow> Inl e
                               | Inr txt \<Rightarrow> json_loads L txt))
                     | _ \<Rightarrow> Inl TypeError)))"

text \<open>The dict \<^verbatim>\<open>result_payload\<close>: the processing result.\<close>

definition result_payload ::
  "config \<Rightarrow> env \<Rightarrow> json \<Rightarrow> json \<Rightarrow> json \<Rightarrow> json \<Rightarrow> string \<Rightarrow> json" where
  "result_payload C E upload_id src_bucket object_name original_filename processed_name =
     JObj [(''upload_id'', upload_id),
           (''status'', JStr ''SUCCESS''),
           (''original_bucket'', src_bucket),
           (''original_object'', object_name),
           (''original_filename'', original_filename),
           (''processed_bucket'', JStr (PROCESSED_BUCKET C)),
           (''processed_object'', JStr processed_name),
           (''processed_at'', JStr (now_iso E))]"

text \<open>Steps 2 to 5 of \<^verbatim>\<open>process_image\<close>, once the four fields are read and
  \<open>object_name\<close> is known to be truthy.\<close>

definition transform_and_store ::
  "config \<Rightarrow> pylib \<Rightarrow> env \<Rightarrow> json \<Rightarrow> json \<Rightarrow> json \<Rightarrow> json \<Rightarrow> world \<Rightarrow> (exn + unit) \<times> world"
  where
  "transform_and_store C L E payload upload_id src_bucket object_name w =
     (case download_as_bytes E src_bucket object_name of
        Inl e \<Rightarrow> (Inl e, w)
      | Inr image_bytes \<Rightarrow>
          (case grayscale_jpeg L image_bytes of
             Inl e \<Rightarrow> (Inl e, w)
           | Inr output_buf \<Rightarrow>
               (let processed_name = ''grayscale_'' @ format_value L upload_id @ ''.jpg''
                in case upload_from_file E (PROCESSED_BUCKET C) processed_name output_buf
                          ''image/jpeg'' w of
                     (Inl e, w1) \<Rightarrow> (Inl e, w1)
                   | (Inr u, w1) \<Rightarrow>
                       (case dict_get payload ''original_filename'' object_name of
                          Inl e \<Rightarrow> (Inl e, w1)
                        | Inr original_filename \<Rightarrow>
                            publish E (RESULTS_TOPIC C)
                              (result_payload C E upload_id src_bucket object_name
                                 original_filename processed_name)
                              [(''upload_id'', upload_id), (''status'', JStr ''SUCCESS'')]
                              w1))))"

text \<open>\<^verbatim>\<open>process_image\<close>: \<open>Inr ()\<close> is a normal return, \<open>Inl e\<close> an exception that
  leaves the handler (and makes Pub/Sub redeliver).\<close>

definition process_image ::
  "config \<Rightarrow> pylib \<Rightarrow> env \<Rightarrow> cloud_event \<Rightarrow> world \<Rightarrow> (exn + unit) \<times> world" where
  "process_image C L E cloud_event w =
     (case decode_pubsub_message L cloud_event of
        Inl exc \<Rightarrow> if isinstance_ValueError exc then (Inr (), w) else (Inl exc, w)
      | Inr payload \<Rightarrow>
          (case dict_get payload ''upload_id'' (JStr ''unknown'') of
             Inl e \<Rightarrow> (Inl e, w)
           | Inr upload_id \<Rightarrow>
          (case dict_get payload ''bucket'' (JStr (UPLOADS_BUCKET C)) of
             Inl e \<Rightarrow> (Inl e, w)
           | Inr src_bucket \<Rightarrow>
          (case dict_get payload ''object_name'' (JStr []) of
             Inl e \<Rightarrow> (Inl e, w)
           | Inr object_name \<Rightarrow>
          (case dict_get payload ''content_type'' (JStr ''image/jpeg'') of
             Inl e \<Rightarrow> (Inl e, w)
           | Inr declared_type \<Rightarrow>
               if \<not> truthy object_name then (Inr (), w)
               else transform_and_store C L E payload upload_id src_bucket object_name w)))))"

section \<open>Notification: \<^verbatim>\<open>log-notification/main.py\<close>\<close>

text \<open>The dict \<^verbatim>\<open>log_entry\<close>, built from a payload that is a dict (every
  \<^verbatim>\<open>payload.get\<close> raises \<open>AttributeError\<close> otherwise, the first one included).\<close>

definition log_entry :: "pylib \<Rightarrow> env \<Rightarrow> cloud_event \<Rightarrow> (string \<times> json) list \<Rightarrow> json" where
  "log_entry L E cloud_event kvs =
     JObj [(''severity'', JStr ''INFO''),
           (''message'', JStr (''Image pipeline completed for upload_id=''
                                @ format_value L (field kvs ''upload_id'' (JStr ''unknown'')))),
           (''event_type'', JStr ''IMAGE_PROCESSING_COMPLETE''),
           (''upload_id'', field kvs ''upload_id'' (JStr ''unknown'')),
           (''status'', field kvs ''status'' (JStr ''UNKNOWN'')),
           (''original'', JObj [(''bucket'', field kvs ''original_bucket'' (JStr [])),
                                (''object'', field kvs ''original_object'' (JStr [])),
                                (''filename'', field kvs ''original_filename'' (JStr []))]),
           (''processed'', JObj [(''bucket'', field kvs ''processed_bucket'' (JStr [])),
                                 (''object'', field kvs ''processed_object'' (JStr []))]),
           (''pipeline_completed_at'', JStr (now_iso E)),
           (''processed_at'', field kvs ''processed_at'' (JStr [])),
           (''cloud_event_id'',
              JStr (case map_of (attributes cloud_event) ''id'' of Some i \<Rightarrow> i | None \<Rightarrow> []))]"

definition log_notification ::
  "pylib \<Rightarrow> env \<Rightarrow> cloud_event \<Rightarrow> world \<Rightarrow> (exn + unit) \<times> world" where
  "log_notification L E cloud_event w =
     (case decode_pubsub_message L cloud_event of
        Inl exc \<Rightarrow> if isinstance_ValueError exc then (Inr (), w) else (Inl exc, w)
      | Inr payload \<Rightarrow>
          (case payload of
             JObj kvs \<Rightarrow>
               (Inr (), w\<lparr>trace := trace w @ [Print (log_entry L E cloud_event kvs)]\<rparr>)
           | _ \<Rightarrow> (Inl AttributeError, w)))"

section \<open>Concrete inputs for the examples\<close>

text \<open>A fragment of the library: each function is given on the inputs the examples
  use, with the value CPython returns there, and raises elsewhere (all examples are
  ASCII, so \<^verbatim>\<open>decode("utf-8")\<close> returns its argument). The image bytes are
  stand-ins.\<close>

definition sample_lib :: pylib where
  "sample_lib =
     \<lparr>b64decode = (\<lambda>s.
        if s = ''W10='' then Inr ''[]''
        else if s = ''eyJ1cGxvYWRfaWQiOiAiYWJjLTEyMyIsICJidWNrZXQiOiAicmF3IiwgIm9iamVjdF9uYW1lIjogInBob3RvLnBuZyJ9''
        then Inr ''{\"upload_id\": \"abc-123\", \"bucket\": \"raw\", \"object_name\": \"photo.png\"}''
        else if s = ''eyJidWNrZXQiOiAicmF3IiwgIm9iamVjdF9uYW1lIjogInBob3RvLnBuZyJ9''
        then Inr ''{\"bucket\": \"raw\", \"object_name\": \"photo.png\"}''
        else if s = ''eyJ1cGxvYWRfaWQiOiAiYWJjLTEyMyIsICJzdGF0dXMiOiAiU1VDQ0VTUyJ9''
        then Inr ''{\"upload_id\": \"abc-123\", \"status\": \"SUCCESS\"}''
        else Inl BinasciiError),
      decode_utf8 = (\<lambda>b. Inr b),
      json_loads = (\<lambda>t.
        if t = ''[]'' then Inr (JArr [])
        else if t = ''{\"upload_id\": \"abc-123\", \"bucket\": \"raw\", \"object_name\": \"photo.png\"}''
        then Inr (JObj [(''upload_id'', JStr ''abc-123''), (''bucket'', JStr ''raw''),
                        (''object_name'', JStr ''photo.png'')])
        else if t = ''{\"bucket\": \"raw\", \"object_name\": \"photo.png\"}''
        then Inr (JObj [(''bucket'', JStr ''raw''), (''object_name'', JStr ''photo.png'')])
        else if t = ''{\"upload_id\": \"abc-123\", \"status\": \"SUCCESS\"}''
        then Inr (JObj [(''upload_id'', JStr ''abc-123''), (''status'', JStr ''SUCCESS'')])
        else Inl JSONDecodeError),
      py_str = (\<lambda>v. case v of JNull \<Rightarrow> ''None''
                           | JBool b \<Rightarrow> (if b then ''True'' else ''False'')
                           | _ \<Rightarrow> []),
      grayscale_jpeg = (\<lambda>b.
        if b = ''PNG-BYTES'' then Inr ''JPEG-BYTES''
        else Inl (OtherError ''UnidentifiedImageError''))\<rparr>"

definition sample_config :: config where
  "sample_config =
     \<lparr>UPLOADS_BUCKET = ''raw'', PROCESSED_BUCKET = ''processed'',
      PUBSUB_TOPIC = ''image-processing-requests'',
      RESULTS_TOPIC = ''image-processing-results'', PROJECT_ID = ''demo''\<rparr>"

text \<open>An invocation in which the services answer, at a given clock reading.\<close>

definition sample_env :: "string \<Rightarrow> env" where
  "sample_env clock =
     \<lparr>uuid4 = ''0b6f7c1e-5a34-4e0d-9f4e-2d1c3b4a5f60'', utcnow = ''20240101_120000'',
      now_iso = clock, store_fault = None, publish_fault = None,
      download_as_bytes = (\<lambda>b k.
        if b = JStr ''raw'' \<and> k = JStr ''photo.png'' then Inr ''PNG-BYTES''
        else Inl (OtherError ''NotFound''))\<rparr>"

text \<open>A Pub/Sub CloudEvent whose message carries the given base64 text.\<close>

definition pubsub_event :: "string \<Rightarrow> cloud_event" where
  "pubsub_event b64 =
     \<lparr>attributes = [(''id'', ''evt-1'')],
      data = JObj [(''message'', JObj [(''data'', JStr b64)])]\<rparr>"

definition post_upload :: "string \<Rightarrow> string option \<Rightarrow> request" where
  "post_upload fname ctype =
     \<lparr>http_method = ''POST'',
      files = [(''image'',
                \<lparr>filename = Some fname, content_type = ctype, stream = ''PNG-BYTES''\<rparr>)]\<rparr>"


definition empty_world :: world where
  "empty_world = \<lparr>blobs = Map.empty, trace = []\<rparr>"

text \<open>Four deliveries. Their message data are the base64 texts of
  \<^verbatim>\<open>{"upload_id": "abc-123", "bucket": "raw", "object_name": "photo.png"}\<close>,
  \<^verbatim>\<open>{"bucket": "raw", "object_name": "photo.png"}\<close>,
  \<^verbatim>\<open>{"upload_id": "abc-123", "status": "SUCCESS"}\<close> and \<^verbatim>\<open>[]\<close>.\<close>

definition request_abc_123 :: cloud_event where
  "request_abc_123 = pubsub_event
     ''eyJ1cGxvYWRfaWQiOiAiYWJjLTEyMyIsICJidWNrZXQiOiAicmF3IiwgIm9iamVjdF9uYW1lIjogInBob3RvLnBuZyJ9''"

definition request_without_id :: cloud_event where
  "request_without_id = pubsub_event
     ''eyJidWNrZXQiOiAicmF3IiwgIm9iamVjdF9uYW1lIjogInBob3RvLnBuZyJ9''"

definition result_abc_123 :: cloud_event where
  "result_abc_123 = pubsub_event
     ''eyJ1cGxvYWRfaWQiOiAiYWJjLTEyMyIsICJzdGF0dXMiOiAiU1VDQ0VTUyJ9''"

definition array_message :: cloud_event where
  "array_message = pubsub_event ''W10=''"

section \<open>Properties of the ingress handler\<close>

text \<open>An invocation that changes nothing has no effects.\<close>

lemma events_since_self: "events_since w w = []"
  by (simp add: events_since_def)

text \<open>What \<open>store_and_queue\<close> does: one store write, then one publish if and only if
  the write was acknowledged; 202 only when both succeed.\<close>

lemma store_and_queue_events:
  "events_since w (snd (store_and_queue C E file fname ext w)) =
     StoreWrite (UPLOADS_BUCKET C) (utcnow E @ ''_'' @ uuid4 E @ ext) (stream file)
       (or_default (content_type file) ''image/jpeg'') (store_fault E = None)
     # (if store_fault E = None
        then [Publish (PUBSUB_TOPIC C)
                (message_data C (uuid4 E) (utcnow E @ ''_'' @ uuid4 E @ ext) fname
                   (or_default (content_type file) ''image/jpeg'') (utcnow E))
                [(''upload_id'', JStr (uuid4 E))] (publish_fault E = None)]
        else [])"
  by (simp add: store_and_queue_def upload_from_file_def publish_def events_since_def Let_def
      split: option.splits)

lemma store_and_queue_status:
  "status (fst (store_and_queue C E file fname ext w)) =
     (if store_fault E = None \<and> publish_fault E = None then 202 else 500)"
  by (simp add: store_and_queue_def upload_from_file_def publish_def jsonify_def Let_def
      split: option.splits)

lemma store_and_queue_body:
  "store_fault E = None \<Longrightarrow> publish_fault E = None \<Longrightarrow>
   resp_body (fst (store_and_queue C E file fname ext w)) =
     Json (JObj [(''upload_id'', JStr (uuid4 E)),
                 (''object_name'', JStr (utcnow E @ ''_'' @ uuid4 E @ ext)),
                 (''message'', JStr ''Image accepted and queued for processing.''),
                 (''status'', JStr ''PROCESSING'')])"
  by (simp add: store_and_queue_def upload_from_file_def publish_def jsonify_def Let_def)

text \<open>A request that passes validation runs \<open>store_and_queue\<close>; any other request
  leaves the world as it is.\<close>

lemma upload_image_accepted:
  "http_method request = ''POST'' \<Longrightarrow> map_of (files request) ''image'' = Some file \<Longrightarrow>
   filename file = Some fname \<Longrightarrow> fname \<noteq> [] \<Longrightarrow>
   lower (snd (splitext fname)) \<in> ALLOWED_EXTENSIONS \<Longrightarrow>
   upload_image C E request w = store_and_queue C E file fname (lower (snd (splitext fname))) w"
  by (simp add: upload_image_def Let_def)

lemma upload_image_cases:
  "snd (upload_image C E request w) = w \<or>
   (\<exists>file fname ext. upload_image C E request w = store_and_queue C E file fname ext w)"
  by (auto simp add: upload_image_def Let_def split: option.splits)

text \<open>Claim C4. Whenever the raw-store write of an invocation fails, the ingress
  handler answers 500 and attempts no publish; and in every invocation, each publish
  attempt comes after a store write that was acknowledged.\<close>

theorem C4_store_failure_no_publish:
  "(list_ex failed_store_write (events_since w (snd (upload_image C E request w))) \<longrightarrow>
      status (fst (upload_image C E request w)) = 500
      \<and> publishes (events_since w (snd (upload_image C E request w))) = [])
   \<and> publish_after_store False (events_since w (snd (upload_image C E request w)))"
proof -
  consider (none) "snd (upload_image C E request w) = w"
    | (stored) upload fname ext where
        "upload_image C E request w = store_and_queue C E upload fname ext w"
    using upload_image_cases by blast
  then show ?thesis
  proof cases
    case none
    then show ?thesis by (simp add: events_since_self)
  next
    case stored
    then show ?thesis
      by (simp add: store_and_queue_events store_and_queue_status)
  qed
qed

text \<open>The instance: a valid upload of \<open>cat.jpg\<close> while the store is unavailable.\<close>

theorem C4_store_failure_no_publish_witness:
  "list_ex failed_store_write
     (events_since empty_world
        (snd (upload_image sample_config
                ((sample_env ''t'')\<lparr>store_fault := Some (OtherError ''ServiceUnavailable'')\<rparr>)
                (post_upload ''cat.jpg'' None) empty_world)))
   \<and> status (fst (upload_image sample_config
                ((sample_env ''t'')\<lparr>store_fault := Some (OtherError ''ServiceUnavailable'')\<rparr>)
                (post_upload ''cat.jpg'' None) empty_world)) = 500
   \<and> publishes
       (events_since empty_world
          (snd (upload_image sample_config
                  ((sample_env ''t'')\<lparr>store_fault := Some (OtherError ''ServiceUnavailable'')\<rparr>)
                  (post_upload ''cat.jpg'' None) empty_world))) = []"
proof -
  have ext: "lower (snd (splitext ''cat.jpg'')) = ''.jpg''"
    by (simp add: lower_def lower_char_def splitext_def rfind_def has_nondot.simps)
  have failed: "list_ex failed_store_write
     (events_since empty_world
        (snd (upload_image sample_config
                ((sample_env ''t'')\<lparr>store_fault := Some (OtherError ''ServiceUnavailable'')\<rparr>)
                (post_upload ''cat.jpg'' None) empty_world)))"
    by (simp add: upload_image_def post_upload_def ext ALLOWED_EXTENSIONS_def
        store_and_queue_def upload_from_file_def sample_env_def events_since_def
        empty_world_def Let_def)
  from C4_store_failure_no_publish [of empty_world sample_config
      "(sample_env ''t'')\<lparr>store_fault := Some (OtherError ''ServiceUnavailable'')\<rparr>"
      "post_upload ''cat.jpg'' None"] failed
  show ?thesis by blast
qed




text \<open>Claim C9. A POST upload whose extension is in the allow-list after lowercasing
  is accepted (202 when store and queue answer, never 400), and the object key written
  to the raw store, which is also the \<open>object_name\<close> of the response, ends with the
  lowercased extension.\<close>

theorem C9_extension_case_insensitive:
  assumes "http_method request = ''POST''"
    and "map_of (files request) ''image'' = Some file"
    and "filename file = Some fname"
    and "fname \<noteq> []"
    and "lower (snd (splitext fname)) \<in> ALLOWED_EXTENSIONS"
  shows "status (fst (upload_image C E request w)) =
           (if store_fault E = None \<and> publish_fault E = None then 202 else 500)
       \<and> map (\<lambda>(b, k, d, ct). k) (store_writes (events_since w (snd (upload_image C E request w))))
           = [utcnow E @ ''_'' @ uuid4 E @ lower (snd (splitext fname))]
       \<and> (store_fault E = None \<and> publish_fault E = None \<longrightarrow>
            resp_body (fst (upload_image C E request w)) =
              Json (JObj [(''upload_id'', JStr (uuid4 E)),
                          (''object_name'',
                             JStr (utcnow E @ ''_'' @ uuid4 E @ lower (snd (splitext fname)))),
                          (''message'', JStr ''Image accepted and queued for processing.''),
                          (''status'', JStr ''PROCESSING'')]))"
proof -
  have run: "upload_image C E request w =
               store_and_queue C E file fname (lower (snd (splitext fname))) w"
    using assms by (rule upload_image_accepted)
  show ?thesis
    unfolding run
    by (simp add: store_and_queue_status store_and_queue_events store_and_queue_body)
qed

text \<open>The instance: \<open>PHOTO.JPG\<close>, whose extension as written is not in the allow-list,
  is stored under a key ending in \<open>.jpg\<close>.\<close>

theorem C9_extension_case_insensitive_witness:
  "lower (snd (splitext ''PHOTO.JPG'')) \<in> ALLOWED_EXTENSIONS
   \<and> snd (splitext ''PHOTO.JPG'') \<notin> ALLOWED_EXTENSIONS
   \<and> status (fst (upload_image sample_config (sample_env ''t'') (post_upload ''PHOTO.JPG'' None)
                    empty_world)) = 202
   \<and> map (\<lambda>(b, k, d, ct). k)
       (store_writes (events_since empty_world
          (snd (upload_image sample_config (sample_env ''t'') (post_upload ''PHOTO.JPG'' None)
                  empty_world))))
       = [''20240101_120000_0b6f7c1e-5a34-4e0d-9f4e-2d1c3b4a5f60.jpg'']"
proof -
  have raw: "snd (splitext ''PHOTO.JPG'') = ''.JPG''"
    by (simp add: splitext_def rfind_def has_nondot.simps)
  have ext: "lower (snd (splitext ''PHOTO.JPG'')) = ''.jpg''"
    by (simp add: raw lower_def lower_char_def)
  have allowed: "lower (snd (splitext ''PHOTO.JPG'')) \<in> ALLOWED_EXTENSIONS"
    by (simp add: ext ALLOWED_EXTENSIONS_def)
  have not_literal: "snd (splitext ''PHOTO.JPG'') \<notin> ALLOWED_EXTENSIONS"
    by (simp add: raw ALLOWED_EXTENSIONS_def)
  have m: "http_method (post_upload ''PHOTO.JPG'' None) = ''POST''"
    and f: "map_of (files (post_upload ''PHOTO.JPG'' None)) ''image'' =
              Some \<lparr>filename = Some ''PHOTO.JPG'', content_type = None, stream = ''PNG-BYTES''\<rparr>"
    by (simp_all add: post_upload_def)
  have n: "filename \<lparr>filename = Some ''PHOTO.JPG'', content_type = None,
             stream = ''PNG-BYTES''\<rparr> = Some ''PHOTO.JPG''"
    by simp
  have ne: "''PHOTO.JPG'' \<noteq> []" by simp
  from C9_extension_case_insensitive [OF m f n ne allowed, of sample_config "sample_env ''t''"
      empty_world] allowed not_literal
  show ?thesis by (simp add: ext sample_env_def)
qed

text \<open>Claim C10. For an accepted upload that declares no content type (none, or an
  empty one), the stored raw object is given the content type \<open>image/jpeg\<close>, and the
  processing request published after an acknowledged write carries the same value
  in its \<open>content_type\<close> field.\<close>

theorem C10_default_content_type_consistent:
  assumes "http_method request = ''POST''"
    and "map_of (files request) ''image'' = Some file"
    and "filename file = Some fname"
    and "fname \<noteq> []"
    and "lower (snd (splitext fname)) \<in> ALLOWED_EXTENSIONS"
    and "content_type file = None \<or> content_type file = Some []"
  shows "map (\<lambda>(b, k, d, ct). ct)
           (store_writes (events_since w (snd (upload_image C E request w)))) = [''image/jpeg'']
       \<and> map (\<lambda>(t, m, a). dict_get m ''content_type'' JNull)
           (publishes (events_since w (snd (upload_image C E request w)))) =
           (if store_fault E = None then [Inr (JStr ''image/jpeg'')] else [])"
proof -
  have run: "upload_image C E request w =
               store_and_queue C E file fname (lower (snd (splitext fname))) w"
    using assms(1-5) by (rule upload_image_accepted)
  have dflt: "or_default (content_type file) ''image/jpeg'' = ''image/jpeg''"
    using assms(6) by auto
  show ?thesis
    unfolding run
    by (simp add: store_and_queue_events dflt message_data_def field_def)
qed

text \<open>The instance: \<open>cat.jpg\<close> uploaded without a content type.\<close>

theorem C10_default_content_type_consistent_witness:
  "map (\<lambda>(b, k, d, ct). ct)
     (store_writes (events_since empty_world
        (snd (upload_image sample_config (sample_env ''t'') (post_upload ''cat.jpg'' None)
                empty_world)))) = [''image/jpeg'']
   \<and> map (\<lambda>(t, m, a). dict_get m ''content_type'' JNull)
       (publishes (events_since empty_world
          (snd (upload_image sample_config (sample_env ''t'') (post_upload ''cat.jpg'' None)
                  empty_world)))) = [Inr (JStr ''image/jpeg'')]"
proof -
  have ext: "lower (snd (splitext ''cat.jpg'')) = ''.jpg''"
    by (simp add: lower_def lower_char_def splitext_def rfind_def has_nondot.simps)
  have allowed: "lower (snd (splitext ''cat.jpg'')) \<in> ALLOWED_EXTENSIONS"
    by (simp add: ext ALLOWED_EXTENSIONS_def)
  have m: "http_method (post_upload ''cat.jpg'' None) = ''POST''"
    and f: "map_of (files (post_upload ''cat.jpg'' None)) ''image'' =
              Some \<lparr>filename = Some ''cat.jpg'', content_type = None, stream = ''PNG-BYTES''\<rparr>"
    by (simp_all add: post_upload_def)
  have n: "filename \<lparr>filename = Some ''cat.jpg'', content_type = None,
             stream = ''PNG-BYTES''\<rparr> = Some ''cat.jpg''"
    by simp
  have ne: "''cat.jpg'' \<noteq> []" by simp
  have c: "content_type \<lparr>filename = Some ''cat.jpg'', content_type = None,
             stream = ''PNG-BYTES''\<rparr> = None
         \<or> content_type \<lparr>filename = Some ''cat.jpg'', content_type = None,
             stream = ''PNG-BYTES''\<rparr> = Some []"
    by simp
  from C10_default_content_type_consistent [OF m f n ne allowed c, of empty_world sample_config
      "sample_env ''t''"]
  show ?thesis by (simp add: sample_env_def)
qed




section \<open>Properties of the processing handler\<close>

text \<open>A payload that decodes to a dict is dropped when \<open>object_name\<close> is falsy and
  goes through download, conversion, store write and publish otherwise; a payload whose
  decoding raises an instance of \<open>ValueError\<close> is dropped.\<close>

lemma process_image_dict:
  assumes "decode_pubsub_message L cloud_event = Inr (JObj kvs)"
  shows "process_image C L E cloud_event w =
           (if \<not> truthy (field kvs ''object_name'' (JStr [])) then (Inr (), w)
            else transform_and_store C L E (JObj kvs)
                   (field kvs ''upload_id'' (JStr ''unknown''))
                   (field kvs ''bucket'' (JStr (UPLOADS_BUCKET C)))
                   (field kvs ''object_name'' (JStr [])) w)"
  using assms by (simp add: process_image_def)

lemma process_image_poison:
  assumes "decode_pubsub_message L cloud_event = Inl exc" and "isinstance_ValueError exc"
  shows "process_image C L E cloud_event w = (Inr (), w)"
  using assms by (simp add: process_image_def)

text \<open>The effects, the store contents and the outcome of \<open>transform_and_store\<close>.\<close>

lemma transform_and_store_events:
  "events_since w (snd (transform_and_store C L E (JObj kvs) upload_id src_bucket object_name w)) =
     (case download_as_bytes E src_bucket object_name of
        Inl e \<Rightarrow> []
      | Inr image_bytes \<Rightarrow>
          (case grayscale_jpeg L image_bytes of
             Inl e \<Rightarrow> []
           | Inr output_buf \<Rightarrow>
               StoreWrite (PROCESSED_BUCKET C) (''grayscale_'' @ format_value L upload_id @ ''.jpg'')
                 output_buf ''image/jpeg'' (store_fault E = None)
               # (if store_fault E = None
                  then [Publish (RESULTS_TOPIC C)
                          (result_payload C E upload_id src_bucket object_name
                             (field kvs ''original_filename'' object_name)
                             (''grayscale_'' @ format_value L upload_id @ ''.jpg''))
                          [(''upload_id'', upload_id), (''status'', JStr ''SUCCESS'')]
                          (publish_fault E = None)]
                  else [])))"
  by (simp add: transform_and_store_def upload_from_file_def publish_def events_since_def Let_def
      split: sum.splits option.splits)

lemma transform_and_store_blobs:
  "blobs (snd (transform_and_store C L E (JObj kvs) upload_id src_bucket object_name w)) =
     (case download_as_bytes E src_bucket object_name of
        Inl e \<Rightarrow> blobs w
      | Inr image_bytes \<Rightarrow>
          (case grayscale_jpeg L image_bytes of
             Inl e \<Rightarrow> blobs w
           | Inr output_buf \<Rightarrow>
               if store_fault E = None
               then (blobs w)((PROCESSED_BUCKET C,
                               ''grayscale_'' @ format_value L upload_id @ ''.jpg'')
                              \<mapsto> (output_buf, ''image/jpeg''))
               else blobs w))"
  by (simp add: transform_and_store_def upload_from_file_def publish_def Let_def
      split: sum.splits option.splits)

lemma transform_and_store_outcome:
  "fst (transform_and_store C L E (JObj kvs) upload_id src_bucket object_name w) =
     (case download_as_bytes E src_bucket object_name of
        Inl e \<Rightarrow> Inl e
      | Inr image_bytes \<Rightarrow>
          (case grayscale_jpeg L image_bytes of
             Inl e \<Rightarrow> Inl e
           | Inr output_buf \<Rightarrow>
               (case store_fault E of
                  Some e \<Rightarrow> Inl e
                | None \<Rightarrow> (case publish_fault E of Some e \<Rightarrow> Inl e | None \<Rightarrow> Inr ()))))"
  by (simp add: transform_and_store_def upload_from_file_def publish_def Let_def
      split: sum.splits option.splits)

text \<open>The sample deliveries decode as intended.\<close>

lemma decode_request_abc_123:
  "decode_pubsub_message sample_lib request_abc_123 =
     Inr (JObj [(''upload_id'', JStr ''abc-123''), (''bucket'', JStr ''raw''),
                (''object_name'', JStr ''photo.png'')])"
  by (simp add: decode_pubsub_message_def request_abc_123_def pubsub_event_def sample_lib_def
      field_def)

lemma decode_request_without_id:
  "decode_pubsub_message sample_lib request_without_id =
     Inr (JObj [(''bucket'', JStr ''raw''), (''object_name'', JStr ''photo.png'')])"
  by (simp add: decode_pubsub_message_def request_without_id_def pubsub_event_def sample_lib_def
      field_def)

lemma decode_result_abc_123:
  "decode_pubsub_message sample_lib result_abc_123 =
     Inr (JObj [(''upload_id'', JStr ''abc-123''), (''status'', JStr ''SUCCESS'')])"
  by (simp add: decode_pubsub_message_def result_abc_123_def pubsub_event_def sample_lib_def
      field_def)

lemma decode_array_message:
  "decode_pubsub_message sample_lib array_message = Inr (JArr [])"
  by (simp add: decode_pubsub_message_def array_message_def pubsub_event_def sample_lib_def
      field_def)

text \<open>Claim C1. For a valid processing request (the payload is a dict with a truthy
  \<open>object_name\<close>, the raw object downloads and converts), two invocations on the same
  message, at different times and with different service behaviour but with the same
  raw bytes, write the same bytes under the same key of the processed bucket; when both
  writes are acknowledged the store holds that artifact after the first run and is
  unchanged by the second.\<close>

theorem C1_processing_idempotent:
  assumes "decode_pubsub_message L cloud_event = Inr (JObj kvs)"
    and "truthy (field kvs ''object_name'' (JStr []))"
    and "download_as_bytes E1 (field kvs ''bucket'' (JStr (UPLOADS_BUCKET C)))
           (field kvs ''object_name'' (JStr [])) = Inr src"
    and "download_as_bytes E2 (field kvs ''bucket'' (JStr (UPLOADS_BUCKET C)))
           (field kvs ''object_name'' (JStr [])) = Inr src"
    and "grayscale_jpeg L src = Inr out"
  shows "store_writes (events_since w (snd (process_image C L E1 cloud_event w))) =
           [(PROCESSED_BUCKET C,
             ''grayscale_'' @ format_value L (field kvs ''upload_id'' (JStr ''unknown'')) @ ''.jpg'',
             out, ''image/jpeg'')]
       \<and> store_writes
           (events_since (snd (process_image C L E1 cloud_event w))
              (snd (process_image C L E2 cloud_event (snd (process_image C L E1 cloud_event w))))) =
           store_writes (events_since w (snd (process_image C L E1 cloud_event w)))
       \<and> (store_fault E1 = None \<and> store_fault E2 = None \<longrightarrow>
            blobs (snd (process_image C L E1 cloud_event w))
              (PROCESSED_BUCKET C,
               ''grayscale_'' @ format_value L (field kvs ''upload_id'' (JStr ''unknown'')) @ ''.jpg'')
              = Some (out, ''image/jpeg'')
            \<and> blobs (snd (process_image C L E2 cloud_event
                             (snd (process_image C L E1 cloud_event w)))) =
                blobs (snd (process_image C L E1 cloud_event w)))"
proof -
  let ?uid = "field kvs ''upload_id'' (JStr ''unknown'')"
  let ?bkt = "field kvs ''bucket'' (JStr (UPLOADS_BUCKET C))"
  let ?obj = "field kvs ''object_name'' (JStr [])"
  have run: "process_image C L E cloud_event v =
               transform_and_store C L E (JObj kvs) ?uid ?bkt ?obj v" for E v
    using assms(1,2) by (simp add: process_image_dict)
  have first: "store_writes (events_since w (snd (process_image C L E1 cloud_event w))) =
                 [(PROCESSED_BUCKET C, ''grayscale_'' @ format_value L ?uid @ ''.jpg'', out,
                   ''image/jpeg'')]"
    by (simp add: run transform_and_store_events assms(3,5))
  have second: "store_writes
                  (events_since v (snd (process_image C L E2 cloud_event v))) =
                 [(PROCESSED_BUCKET C, ''grayscale_'' @ format_value L ?uid @ ''.jpg'', out,
                   ''image/jpeg'')]" for v
    by (simp add: run transform_and_store_events assms(4,5))
  have stored: "blobs (snd (process_image C L E1 cloud_event w))
                  (PROCESSED_BUCKET C, ''grayscale_'' @ format_value L ?uid @ ''.jpg'')
                  = Some (out, ''image/jpeg'')" if "store_fault E1 = None"
    using that by (simp add: run transform_and_store_blobs assms(3,5))
  have again: "blobs (snd (process_image C L E2 cloud_event
                             (snd (process_image C L E1 cloud_event w)))) =
               blobs (snd (process_image C L E1 cloud_event w))"
    if "store_fault E1 = None" and "store_fault E2 = None"
    using that by (simp add: run transform_and_store_blobs assms(3,4,5))
  from first second stored again show ?thesis by simp
qed

text \<open>The instance: the request for \<open>abc-123\<close>, processed at 12:00:05 and again at
  12:03:41.\<close>

theorem C1_processing_idempotent_witness:
  "store_writes (events_since empty_world
      (snd (process_image sample_config sample_lib (sample_env ''2024-01-01T12:00:05+00:00'')
              request_abc_123 empty_world))) =
     [(''processed'', ''grayscale_abc-123.jpg'', ''JPEG-BYTES'', ''image/jpeg'')]
   \<and> store_writes
       (events_since
          (snd (process_image sample_config sample_lib (sample_env ''2024-01-01T12:00:05+00:00'')
                  request_abc_123 empty_world))
          (snd (process_image sample_config sample_lib (sample_env ''2024-01-01T12:03:41+00:00'')
                  request_abc_123
                  (snd (process_image sample_config sample_lib
                          (sample_env ''2024-01-01T12:00:05+00:00'') request_abc_123
                          empty_world))))) =
     [(''processed'', ''grayscale_abc-123.jpg'', ''JPEG-BYTES'', ''image/jpeg'')]
   \<and> blobs (snd (process_image sample_config sample_lib
                    (sample_env ''2024-01-01T12:00:05+00:00'') request_abc_123 empty_world))
       (''processed'', ''grayscale_abc-123.jpg'') = Some (''JPEG-BYTES'', ''image/jpeg'')
   \<and> blobs (snd (process_image sample_config sample_lib
                    (sample_env ''2024-01-01T12:03:41+00:00'') request_abc_123
                    (snd (process_image sample_config sample_lib
                            (sample_env ''2024-01-01T12:00:05+00:00'') request_abc_123
                            empty_world)))) =
     blobs (snd (process_image sample_config sample_lib
                   (sample_env ''2024-01-01T12:00:05+00:00'') request_abc_123 empty_world))"
proof -
  let ?kvs = "[(''upload_id'', JStr ''abc-123''), (''bucket'', JStr ''raw''),
               (''object_name'', JStr ''photo.png'')]"
  have obj: "truthy (field ?kvs ''object_name'' (JStr []))"
    by (simp add: field_def)
  have src: "download_as_bytes (sample_env clock)
               (field ?kvs ''bucket'' (JStr (UPLOADS_BUCKET sample_config)))
               (field ?kvs ''object_name'' (JStr [])) = Inr ''PNG-BYTES''" for clock
    by (simp add: field_def sample_env_def)
  have gray: "grayscale_jpeg sample_lib ''PNG-BYTES'' = Inr ''JPEG-BYTES''"
    by (simp add: sample_lib_def)
  have ok: "store_fault (sample_env clock) = None" for clock
    by (simp add: sample_env_def)
  from C1_processing_idempotent [OF decode_request_abc_123 obj
      src [of "''2024-01-01T12:00:05+00:00''"] src [of "''2024-01-01T12:03:41+00:00''"] gray,
      where w = empty_world] ok
  show ?thesis
    by (simp add: field_def sample_config_def)
qed

text \<open>Claim C2. For a processing request with upload id \<open>u\<close>, the only store write of
  an invocation goes to the processed bucket under the key \<open>grayscale_u.jpg\<close> with
  content type \<open>image/jpeg\<close>, whatever the source object's name; it happens exactly when
  \<open>object_name\<close> is truthy and the download and the conversion succeed.\<close>

theorem C2_artifact_key:
  assumes "decode_pubsub_message L cloud_event = Inr (JObj kvs)"
    and "map_of kvs ''upload_id'' = Some (JStr upload_id)"
  shows "store_writes (events_since w (snd (process_image C L E cloud_event w))) =
           (if truthy (field kvs ''object_name'' (JStr []))
            then (case download_as_bytes E (field kvs ''bucket'' (JStr (UPLOADS_BUCKET C)))
                         (field kvs ''object_name'' (JStr [])) of
                    Inl e \<Rightarrow> []
                  | Inr image_bytes \<Rightarrow>
                      (case grayscale_jpeg L image_bytes of
                         Inl e \<Rightarrow> []
                       | Inr output_buf \<Rightarrow>
                           [(PROCESSED_BUCKET C, ''grayscale_'' @ upload_id @ ''.jpg'',
                             output_buf, ''image/jpeg'')]))
            else [])"
proof -
  have uid: "field kvs ''upload_id'' (JStr ''unknown'') = JStr upload_id"
    using assms(2) by (simp add: field_def)
  show ?thesis
    by (simp add: process_image_dict [OF assms(1)] transform_and_store_events uid
        events_since_self split: sum.splits)
qed

text \<open>The instance: upload id \<open>abc-123\<close> and source object \<open>photo.png\<close> give the
  key \<open>grayscale_abc-123.jpg\<close>.\<close>

theorem C2_artifact_key_witness:
  "store_writes (events_since empty_world
      (snd (process_image sample_config sample_lib (sample_env ''2024-01-01T12:00:05+00:00'')
              request_abc_123 empty_world))) =
     [(''processed'', ''grayscale_abc-123.jpg'', ''JPEG-BYTES'', ''image/jpeg'')]"
proof -
  have uid: "map_of [(''upload_id'', JStr ''abc-123''), (''bucket'', JStr ''raw''),
                     (''object_name'', JStr ''photo.png'')] ''upload_id'' = Some (JStr ''abc-123'')"
    by simp
  from C2_artifact_key [OF decode_request_abc_123 uid, of empty_world sample_config
      "sample_env ''2024-01-01T12:00:05+00:00''"]
  show ?thesis
    by (simp add: field_def sample_config_def sample_env_def sample_lib_def)
qed

text \<open>Claim C3 says that every malformed payload is dropped without an exception.
  The handler drops the payloads whose decoding raises an instance of \<open>ValueError\<close>
  (\<open>process_image_poison\<close>), but a payload that decodes to valid JSON other than an
  object passes the \<^verbatim>\<open>try\<close> block, and the first \<^verbatim>\<open>payload.get\<close> raises
  \<open>AttributeError\<close> out of the handler.\<close>

theorem C3_non_object_payload_raises:
  assumes "decode_pubsub_message L cloud_event = Inr payload"
    and "\<not> is_dict payload"
  shows "process_image C L E cloud_event w = (Inl AttributeError, w)"
  using assms by (cases payload) (simp_all add: process_image_def)

text \<open>The instance: the message whose data is \<^verbatim>\<open>W10=\<close>, the base64 text of
  \<^verbatim>\<open>[]\<close>.\<close>

theorem C3_non_object_payload_raises_witness:
  "decode_pubsub_message sample_lib array_message = Inr (JArr [])
   \<and> process_image sample_config sample_lib (sample_env ''2024-01-01T12:00:05+00:00'')
       array_message empty_world = (Inl AttributeError, empty_world)"
proof -
  have shape: "\<not> is_dict (JArr [])" by simp
  from C3_non_object_payload_raises [OF decode_array_message shape] decode_array_message
  show ?thesis by simp
qed

text \<open>Claim C8. For a payload that is a dict, the invocation is a silent drop (normal
  return, world unchanged) exactly when \<open>object_name\<close> is missing or falsy. When the
  dict has no \<open>upload_id\<close> and \<open>object_name\<close> is truthy, the handler proceeds with
  the upload id \<open>unknown\<close>: it writes the artifact under \<open>grayscale_unknown.jpg\<close>
  once download and conversion succeed, and publishes a result whose \<open>upload_id\<close> is
  \<open>unknown\<close> once the write is acknowledged.\<close>

theorem C8_missing_upload_id:
  assumes "decode_pubsub_message L cloud_event = Inr (JObj kvs)"
  shows "(process_image C L E cloud_event w = (Inr (), w)) =
           (\<not> truthy (field kvs ''object_name'' (JStr [])))
       \<and> (map_of kvs ''upload_id'' = None \<and> truthy (field kvs ''object_name'' (JStr [])) \<longrightarrow>
            store_writes (events_since w (snd (process_image C L E cloud_event w))) =
              (case download_as_bytes E (field kvs ''bucket'' (JStr (UPLOADS_BUCKET C)))
                      (field kvs ''object_name'' (JStr [])) of
                 Inl e \<Rightarrow> []
               | Inr image_bytes \<Rightarrow>
                   (case grayscale_jpeg L image_bytes of
                      Inl e \<Rightarrow> []
                    | Inr output_buf \<Rightarrow>
                        [(PROCESSED_BUCKET C, ''grayscale_unknown.jpg'', output_buf,
                          ''image/jpeg'')]))
            \<and> map (\<lambda>(t, m, a). dict_get m ''upload_id'' JNull)
                (publishes (events_since w (snd (process_image C L E cloud_event w)))) =
              (case download_as_bytes E (field kvs ''bucket'' (JStr (UPLOADS_BUCKET C)))
                      (field kvs ''object_name'' (JStr [])) of
                 Inl e \<Rightarrow> []
               | Inr image_bytes \<Rightarrow>
                   (case grayscale_jpeg L image_bytes of
                      Inl e \<Rightarrow> []
                    | Inr output_buf \<Rightarrow>
                        if store_fault E = None then [Inr (JStr ''unknown'')] else [])))"
proof -
  let ?uid = "field kvs ''upload_id'' (JStr ''unknown'')"
  let ?obj = "field kvs ''object_name'' (JStr [])"
  let ?bkt = "field kvs ''bucket'' (JStr (UPLOADS_BUCKET C))"
  have run: "process_image C L E cloud_event w =
               (if \<not> truthy ?obj then (Inr (), w)
                else transform_and_store C L E (JObj kvs) ?uid ?bkt ?obj w)"
    by (rule process_image_dict [OF assms])
  have not_dropped:
    "transform_and_store C L E (JObj kvs) ?uid ?bkt ?obj w \<noteq> (Inr (), w)"
  proof
    assume same: "transform_and_store C L E (JObj kvs) ?uid ?bkt ?obj w = (Inr (), w)"
    from same have normal:
      "fst (transform_and_store C L E (JObj kvs) ?uid ?bkt ?obj w) = Inr ()"
      by simp
    from same have quiet:
      "events_since w (snd (transform_and_store C L E (JObj kvs) ?uid ?bkt ?obj w)) = []"
      by (simp add: events_since_self)
    from normal quiet show False
      by (simp add: transform_and_store_outcome transform_and_store_events
          split: sum.splits option.splits)
  qed
  have dropped: "(process_image C L E cloud_event w = (Inr (), w)) = (\<not> truthy ?obj)"
    using not_dropped by (simp add: run)
  have unknown: "?uid = JStr ''unknown''" if "map_of kvs ''upload_id'' = None"
    using that by (simp add: field_def)
  have written: "store_writes (events_since w (snd (process_image C L E cloud_event w))) =
      (case download_as_bytes E ?bkt ?obj of
         Inl e \<Rightarrow> []
       | Inr image_bytes \<Rightarrow>
           (case grayscale_jpeg L image_bytes of
              Inl e \<Rightarrow> []
            | Inr output_buf \<Rightarrow>
                [(PROCESSED_BUCKET C, ''grayscale_unknown.jpg'', output_buf, ''image/jpeg'')]))"
    if "map_of kvs ''upload_id'' = None" and "truthy ?obj"
    using that(2)
    by (simp add: run unknown [OF that(1)] transform_and_store_events split: sum.splits)
  have announced: "map (\<lambda>(t, m, a). dict_get m ''upload_id'' JNull)
        (publishes (events_since w (snd (process_image C L E cloud_event w)))) =
      (case download_as_bytes E ?bkt ?obj of
         Inl e \<Rightarrow> []
       | Inr image_bytes \<Rightarrow>
           (case grayscale_jpeg L image_bytes of
              Inl e \<Rightarrow> []
            | Inr output_buf \<Rightarrow>
                if store_fault E = None then [Inr (JStr ''unknown'')] else []))"
    if "map_of kvs ''upload_id'' = None" and "truthy ?obj"
    using that
    by (simp add: run transform_and_store_events result_payload_def field_def
        split: sum.splits)
  from dropped written announced show ?thesis by blast
qed

text \<open>The instance: a request for \<open>photo.png\<close> that carries no upload id.\<close>

theorem C8_missing_upload_id_witness:
  "process_image sample_config sample_lib (sample_env ''2024-01-01T12:00:05+00:00'')
     request_without_id empty_world \<noteq> (Inr (), empty_world)
   \<and> store_writes (events_since empty_world
       (snd (process_image sample_config sample_lib (sample_env ''2024-01-01T12:00:05+00:00'')
               request_without_id empty_world))) =
       [(''processed'', ''grayscale_unknown.jpg'', ''JPEG-BYTES'', ''image/jpeg'')]
   \<and> map (\<lambda>(t, m, a). dict_get m ''upload_id'' JNull)
       (publishes (events_since empty_world
          (snd (process_image sample_config sample_lib (sample_env ''2024-01-01T12:00:05+00:00'')
                  request_without_id empty_world)))) = [Inr (JStr ''unknown'')]"
  using C8_missing_upload_id [OF decode_request_without_id, of sample_config
      "sample_env ''2024-01-01T12:00:05+00:00''" empty_world]
  by (simp add: field_def sample_config_def sample_env_def sample_lib_def)

section \<open>Properties of the notification handler\<close>

lemma log_notification_dict:
  assumes "decode_pubsub_message L cloud_event = Inr (JObj kvs)"
  shows "log_notification L E cloud_event w =
           (Inr (), w\<lparr>trace := trace w @ [Print (log_entry L E cloud_event kvs)]\<rparr>)"
  using assms by (simp add: log_notification_def)

lemma log_entry_upload_id:
  "dict_get (log_entry L E cloud_event kvs) ''upload_id'' JNull =
     Inr (field kvs ''upload_id'' (JStr ''unknown''))"
  by (simp add: log_entry_def field_def)

lemma log_entry_status:
  "dict_get (log_entry L E cloud_event kvs) ''status'' JNull =
     Inr (field kvs ''status'' (JStr ''UNKNOWN''))"
  by (simp add: log_entry_def field_def)

text \<open>Claim C7. For a processing result (a payload that decodes to a dict), two
  deliveries of the same message both return normally, each prints one record, and the
  \<open>upload_id\<close> and \<open>status\<close> of both records are the payload's (or the defaults
  \<open>unknown\<close> and \<open>UNKNOWN\<close>), whatever the clock reads.\<close>

theorem C7_duplicate_delivery:
  assumes "decode_pubsub_message L cloud_event = Inr (JObj kvs)"
  shows "fst (log_notification L E1 cloud_event w) = Inr ()
       \<and> fst (log_notification L E2 cloud_event (snd (log_notification L E1 cloud_event w))) = Inr ()
       \<and> map (\<lambda>r. (dict_get r ''upload_id'' JNull, dict_get r ''status'' JNull))
           (prints (events_since w (snd (log_notification L E1 cloud_event w)))) =
           [(Inr (field kvs ''upload_id'' (JStr ''unknown'')),
             Inr (field kvs ''status'' (JStr ''UNKNOWN'')))]
       \<and> map (\<lambda>r. (dict_get r ''upload_id'' JNull, dict_get r ''status'' JNull))
           (prints (events_since (snd (log_notification L E1 cloud_event w))
              (snd (log_notification L E2 cloud_event
                      (snd (log_notification L E1 cloud_event w)))))) =
           map (\<lambda>r. (dict_get r ''upload_id'' JNull, dict_get r ''status'' JNull))
             (prints (events_since w (snd (log_notification L E1 cloud_event w))))"
  by (simp add: log_notification_dict [OF assms] events_since_def log_entry_upload_id
      log_entry_status)

text \<open>The instance: the result for \<open>abc-123\<close>, delivered at 12:00:09 and again at
  12:04:02.\<close>

theorem C7_duplicate_delivery_witness:
  "fst (log_notification sample_lib (sample_env ''2024-01-01T12:00:09+00:00'') result_abc_123
          empty_world) = Inr ()
   \<and> fst (log_notification sample_lib (sample_env ''2024-01-01T12:04:02+00:00'') result_abc_123
            (snd (log_notification sample_lib (sample_env ''2024-01-01T12:00:09+00:00'')
                    result_abc_123 empty_world))) = Inr ()
   \<and> map (\<lambda>r. (dict_get r ''upload_id'' JNull, dict_get r ''status'' JNull))
       (prints (events_since empty_world
          (snd (log_notification sample_lib (sample_env ''2024-01-01T12:00:09+00:00'')
                  result_abc_123 empty_world)))) =
       [(Inr (JStr ''abc-123''), Inr (JStr ''SUCCESS''))]
   \<and> map (\<lambda>r. (dict_get r ''upload_id'' JNull, dict_get r ''status'' JNull))
       (prints (events_since
          (snd (log_notification sample_lib (sample_env ''2024-01-01T12:00:09+00:00'')
                  result_abc_123 empty_world))
          (snd (log_notification sample_lib (sample_env ''2024-01-01T12:04:02+00:00'')
                  result_abc_123
                  (snd (log_notification sample_lib (sample_env ''2024-01-01T12:00:09+00:00'')
                          result_abc_123 empty_world)))))) =
       [(Inr (JStr ''abc-123''), Inr (JStr ''SUCCESS''))]"
  using C7_duplicate_delivery [OF decode_result_abc_123,
      of "sample_env ''2024-01-01T12:00:09+00:00''" empty_world
         "sample_env ''2024-01-01T12:04:02+00:00''"]
  by (simp add: field_def)

end
